theory Spec2Isabelle
  imports Main
begin

section \<open>Values of the Go program\<close>

text \<open>
  A Go \<open>error\<close> is an interface value. The program looks at an error in three ways only:
  it compares it with \<open>nil\<close>, it prints it, and it asks for its dynamic type
  (\<open>err.(net.Error)\<close> in the connection loop, \<open>err.(*exec.ExitError)\<close> after the template
  command). A non-nil error is therefore a message together with the dynamic type the
  program can tell apart; \<open>nil\<close> is \<open>None\<close> of \<open>error option\<close>.
\<close>

datatype error =
    Error string
  | NetError string
  | ExitError string string

text \<open>The arguments of a format string: \<open>%s\<close>, \<open>%d\<close> and \<open>%v\<close> of an error.\<close>

datatype arg = S string | I int | E error

subsection \<open>The configuration (\<open>hcloudConfig\<close>, \<open>flatcarConfig\<close>, \<open>config\<close>)\<close>

record hcloudConfig =
  Token :: string
  SSHKey :: string
  SSHKeyPrivatePath :: string
  PrivateNetwork :: string
  ServerType :: string
  Location :: string
  Image :: string

text \<open>
  \<open>InstallDevice\<close> and \<open>InstallArgs\<close> are read by \<open>main\<close> (\<open>cfg.Flatcar.InstallDevice\<close>,
  \<open>cfg.Flatcar.InstallArgs\<close>); the struct declaration at hand stops at \<open>TemplateCommand\<close>,
  so the two fields are added here as the strings \<open>main\<close> formats with \<open>%s\<close>.
  \<open>verifyConfig\<close> touches neither.
\<close>

record flatcarConfig =
  InstallScript :: string
  Version :: string
  ConfigTemplate :: string
  TemplateStatic :: "string \<rightharpoonup> string"
  TemplateCommand :: string
  InstallDevice :: string
  InstallArgs :: string

record config =
  HCloud :: hcloudConfig
  Flatcar :: flatcarConfig

text \<open>
  \<open>verifyConfig\<close> takes a pointer and returns an error: the model returns the struct as the
  call leaves it, and the error. The two defaults are assignments through the pointer, so
  the image default is in place also when the later version check fails.
\<close>

definition verifyConfig :: "config \<Rightarrow> config \<times> error option" where
  "verifyConfig conf =
    (if Token (HCloud conf) = [] then (conf, Some (Error ''hcloud token missing''))
     else if SSHKey (HCloud conf) = [] then (conf, Some (Error ''ssh key missing''))
     else if PrivateNetwork (HCloud conf) = [] then (conf, Some (Error ''private network missing''))
     else if ServerType (HCloud conf) = [] then (conf, Some (Error ''server type missing''))
     else if Location (HCloud conf) = [] then (conf, Some (Error ''location missing''))
     else
       let conf1 = (if Image (HCloud conf) = []
                    then conf\<lparr>HCloud := (HCloud conf)\<lparr>Image := ''debian-11''\<rparr>\<rparr>
                    else conf)
       in if Version (Flatcar conf1) = [] then (conf1, Some (Error ''flatcar version missing''))
          else
            let conf2 = (if ConfigTemplate (Flatcar conf1) = []
                         then conf1\<lparr>Flatcar := (Flatcar conf1)\<lparr>ConfigTemplate := ''ignition.yml.gtpl''\<rparr>\<rparr>
                         else conf1)
            in (conf2, None))"

text \<open>
  \<open>ParseConfig\<close>: \<open>toml.DecodeFile\<close> fills \<open>conf\<close> and returns an error; its outcome is the
  pair of the struct as decoded and that error.
\<close>

definition ParseConfig :: "config \<times> error option \<Rightarrow> config \<times> error option" where
  "ParseConfig decoded =
    (case decoded of
       (conf, Some err) \<Rightarrow> (conf, Some err)
     | (conf, None) \<Rightarrow> verifyConfig conf)"

subsection \<open>Cloud resources\<close>

text \<open>
  The types of the cloud client library, with the fields the program reads. A pointer that
  the program may hold as \<open>nil\<close> is an \<open>option\<close>. \<open>ServerStatus\<close> is a string type in Go.
\<close>

record sshKey =
  KeyID :: int
  KeyName :: string
  PublicKey :: string

record network =
  NetworkID :: int
  NetworkName :: string

record serverPrivateNet =
  Network :: network

record server =
  ID :: int
  Name :: string
  Status :: string
  RescueEnabled :: bool
  PrivateNet :: "serverPrivateNet list"
  IPv4 :: string
  IPv6 :: string

definition ServerStatusRunning :: string where
  "ServerStatusRunning = ''running''"

record serverType =
  ServerTypeName :: string

record image =
  ImageName :: string

record location =
  LocationName :: string

text \<open>
  An action: its command name and what \<open>action.Error()\<close> returns (\<open>nil\<close> unless the
  provider reports the action as failed).
\<close>

record action =
  ActionID :: int
  Command :: string
  ActionError :: "error option"

record serverCreateOpts =
  OptName :: string
  StartAfterCreate :: bool
  OptServerType :: "serverType option"
  OptImage :: "image option"
  OptLocation :: "location option"
  SSHKeys :: "sshKey list"
  Networks :: "network list"

record serverCreateResult =
  CreatedServer :: server
  CreateAction :: action
  NextActions :: "action list"

text \<open>
  Modelled from the spec: the transpiler's report type belongs to an external library; the
  spec describes it as "a diagnostic report with a fatal/non-fatal classification". The
  program calls \<open>report.IsFatal()\<close> and nothing else on it.
\<close>

record report =
  diagnostics :: "string list"
  fatal :: bool

definition IsFatal :: "report \<Rightarrow> bool" where
  "IsFatal r = fatal r"

subsection \<open>Channels\<close>

text \<open>
  A receive-only channel as the program sees it: the values that will arrive, in order,
  and whether the sender closes the channel after them. \<open>range\<close> over a channel that is
  never closed does not end, and a receive from an empty open channel does not return;
  a receive from an empty closed channel returns the zero value.
\<close>

record 'a chan =
  sent :: "'a list"
  closed :: bool

section \<open>The world outside the program\<close>

text \<open>
  Every call that leaves the process is an event of the run's trace, in program order.
  Format strings are kept without their trailing newline, and the apostrophes around
  a \<open>%s\<close> are left out.
\<close>

datatype event =
    EvPrintf string "arg list"
  | EvLog string "arg list"
  | EvDecodeFile string
  | EvSSHKeyGetByName string
  | EvNetworkGetByName string
  | EvServerGetByName string
  | EvAttachToNetwork int int
  | EvServerTypeGetByName string
  | EvImageGet string
  | EvLocationGetByName string
  | EvServerCreate serverCreateOpts
  | EvServerGetByID int
  | EvWatchProgress action
  | EvParseFiles string
  | EvExecute string
  | EvYamlMarshal
  | EvExecCommand string string
  | EvCreateTemp
  | EvWrite string
  | EvRemove string
  | EvEnableRescue int string "sshKey list"
  | EvReboot int
  | EvPoweron int
  | EvSleep nat
  | EvGophKey string
  | EvGophUseAgent
  | EvNewUnknown string string
  | EvClientClose
  | EvUpload string string
  | EvCommand string
  | EvStdoutPipe string
  | EvRun string

text \<open>
  What the outside answers. Each field is named after the call it answers and is a
  function of the call's arguments; \<open>goph_NewUnknown k\<close> is the answer to the \<open>k\<close>-th
  connection attempt (the loop makes its \<open>k\<close>-th attempt exactly when \<open>retries = k\<close>).
  A lookup by name answers with an error, with \<open>nil\<close> and no error (the resource does not
  exist: \<open>main\<close> tests \<open>sshKey == nil\<close>, \<open>privateNetwork == nil\<close>, \<open>server == nil\<close>), or
  with the resource.
\<close>

record env =
  os_Args :: "string list"
  toml_DecodeFile :: "string \<Rightarrow> config \<times> error option"
  SSHKey_GetByName :: "string \<Rightarrow> error + sshKey option"
  Network_GetByName :: "string \<Rightarrow> error + network option"
  Server_GetByName :: "string \<Rightarrow> error + server option"
  Server_AttachToNetwork :: "server \<Rightarrow> network \<Rightarrow> error + action"
  ServerType_GetByName :: "string \<Rightarrow> error + serverType option"
  Image_Get :: "string \<Rightarrow> error + image option"
  Location_GetByName :: "string \<Rightarrow> error + location option"
  Server_Create :: "serverCreateOpts \<Rightarrow> error + serverCreateResult"
  Server_GetByID :: "int \<Rightarrow> error + server option"
  Action_WatchProgress :: "action \<Rightarrow> int chan \<times> error option chan"
  Template_ParseFiles :: "string \<Rightarrow> error option"
  Template_Execute :: "string \<Rightarrow> server \<Rightarrow> sshKey \<Rightarrow> (string \<rightharpoonup> string) \<Rightarrow> error + string"
  yaml_Marshal :: "server \<Rightarrow> sshKey \<Rightarrow> error + string"
  Cmd_Output :: "string \<Rightarrow> string \<Rightarrow> string \<Rightarrow> error + string"
  clconfig_Parse :: "string \<Rightarrow> (string \<times> string) \<times> report"
  clconfig_Convert :: "string \<Rightarrow> string \<Rightarrow> string \<Rightarrow> string \<times> report"
  json_Marshal :: "string \<Rightarrow> error + string"
  os_CreateTemp :: "error + string"
  File_Write :: "string \<Rightarrow> string \<Rightarrow> error option"
  os_Remove :: "string \<Rightarrow> error option"
  Server_EnableRescue :: "server \<Rightarrow> sshKey list \<Rightarrow> error + action"
  Server_Reboot :: "server \<Rightarrow> error + action"
  Server_Poweron :: "server \<Rightarrow> error + action"
  goph_Key :: "string \<Rightarrow> error option"
  goph_UseAgent :: "error option"
  goph_NewUnknown :: "nat \<Rightarrow> error option"
  Client_Upload :: "string \<Rightarrow> string \<Rightarrow> error option"
  Client_Command :: "string \<Rightarrow> error option"
  Cmd_StdoutPipe :: "string \<Rightarrow> error option"
  Cmd_Run :: "string \<Rightarrow> error option"

text \<open>
  The state a run changes: the trace so far and the files of the temporary directory
  (path to content).
\<close>

record world =
  trace :: "event list"
  files :: "string \<rightharpoonup> string"

text \<open>
  How a run can stop before \<open>main\<close> returns: \<open>os.Exit\<close> (called by \<open>log.Fatalf\<close> with
  status 1), a run-time panic, or a receive that never returns.
\<close>

datatype halt = Exit int | Panic | Blocked

type_synonym 'a prog = "world \<Rightarrow> (halt + 'a) \<times> world"

definition ret :: "'a \<Rightarrow> 'a prog" where
  "ret x w = (Inr x, w)"

definition seq :: "'a prog \<Rightarrow> ('a \<Rightarrow> 'b prog) \<Rightarrow> 'b prog" where
  "seq m f w = (case m w of (Inl h, w') \<Rightarrow> (Inl h, w') | (Inr a, w') \<Rightarrow> f a w')"

definition emit :: "event \<Rightarrow> unit prog" where
  "emit e w = (Inr (), w\<lparr>trace := trace w @ [e]\<rparr>)"

definition stop :: "halt \<Rightarrow> 'a prog" where
  "stop h w = (Inl h, w)"

text \<open>
  \<open>log.Fatalf\<close> prints and calls \<open>os.Exit(1)\<close>: the process ends there, and functions
  deferred by \<open>main\<close> are not run.
\<close>

definition Fatalf :: "string \<Rightarrow> arg list \<Rightarrow> 'a prog" where
  "Fatalf fmt args = seq (emit (EvLog fmt args)) (\<lambda>_. stop (Exit 1))"

section \<open>\<open>waitForAction\<close>\<close>

text \<open>The \<open>range\<close> loop over the progress values that arrive.\<close>

fun rangeProgress :: "int list \<Rightarrow> bool \<Rightarrow> bool" where
  "rangeProgress [] success = success"
| "rangeProgress (progress # rest) success =
     rangeProgress rest (if progress = 100 then True else success)"

text \<open>\<open><-errorChannel\<close>.\<close>

definition receive :: "error option chan \<Rightarrow> (error option) prog" where
  "receive c =
    (case sent c of
       v # _ \<Rightarrow> ret v
     | [] \<Rightarrow> if closed c then ret None else stop Blocked)"

definition waitForAction :: "env \<Rightarrow> action \<Rightarrow> (error option) prog" where
  "waitForAction e act =
    seq (emit (EvLog ''waiting for action %s to complete'' [S (Command act)])) (\<lambda>_.
    seq (emit (EvWatchProgress act)) (\<lambda>_.
    case Action_WatchProgress e act of
      (progressChannel, errorChannel) \<Rightarrow>
        if \<not> closed progressChannel then stop Blocked
        else
          let success = rangeProgress (sent progressChannel) False
          in if \<not> success then receive errorChannel else ret None))"

section \<open>\<open>transpileConfig\<close>\<close>

text \<open>
  Go returns \<open>(string, error)\<close>: the pair of the path and the error, the path empty when
  the error is not \<open>nil\<close>. \<open>clconfig.Parse\<close> answers with the parsed configuration, its
  syntax tree and a report; \<open>clconfig.Convert\<close> takes both and the platform \<open>""\<close>.
  \<open>os.CreateTemp\<close> creates the file empty; a successful \<open>Write\<close> gives it the JSON text.
\<close>

definition createFile :: "string \<Rightarrow> unit prog" where
  "createFile name w = (Inr (), w\<lparr>files := (files w)(name \<mapsto> [])\<rparr>)"

definition writeFile :: "string \<Rightarrow> string \<Rightarrow> unit prog" where
  "writeFile name content w = (Inr (), w\<lparr>files := (files w)(name \<mapsto> content)\<rparr>)"

definition deleteFile :: "string \<Rightarrow> unit prog" where
  "deleteFile name w = (Inr (), w\<lparr>files := (files w)(name := None)\<rparr>)"

definition transpileConfig :: "env \<Rightarrow> string \<Rightarrow> (string \<times> error option) prog" where
  "transpileConfig e input =
    (case clconfig_Parse e input of
       ((cfg, pt), rep) \<Rightarrow>
         if IsFatal rep then ret ([], Some (Error ''config parsing failed''))
         else
           (case clconfig_Convert e cfg [] pt of
              (transpiledConfig, rep2) \<Rightarrow>
                if IsFatal rep2 then ret ([], Some (Error ''config conversion failed''))
                else
                  (case json_Marshal e transpiledConfig of
                     Inl err \<Rightarrow> ret ([], Some err)
                   | Inr cfgJSON \<Rightarrow>
                       seq (emit EvCreateTemp) (\<lambda>_.
                       case os_CreateTemp e of
                         Inl err \<Rightarrow> ret ([], Some err)
                       | Inr name \<Rightarrow>
                           seq (createFile name) (\<lambda>_.
                           seq (emit (EvWrite name)) (\<lambda>_.
                           case File_Write e name cfgJSON of
                             Some err \<Rightarrow> ret ([], Some err)
                           | None \<Rightarrow>
                               seq (writeFile name cfgJSON) (\<lambda>_. ret (name, None))))))))"

section \<open>The steps of \<open>main\<close>\<close>

text \<open>
  \<open>main\<close> is one function of 350 lines. Each step below embeds a contiguous range of its
  lines; \<open>deploy\<close> and \<open>main\<close> put them together in the order of the source.
\<close>

subsection \<open>The server exists: the private network (lines 132-157)\<close>

text \<open>The loop over \<open>server.PrivateNet\<close>, leaving at the first match.\<close>

fun privateNetworkAttached :: "serverPrivateNet list \<Rightarrow> network \<Rightarrow> bool" where
  "privateNetworkAttached [] privateNetwork = False"
| "privateNetworkAttached (attachedPrivateNet # rest) privateNetwork =
     (if NetworkID (Network attachedPrivateNet) = NetworkID privateNetwork then True
      else privateNetworkAttached rest privateNetwork)"

definition existingServer :: "env \<Rightarrow> config \<Rightarrow> string \<Rightarrow> server \<Rightarrow> network \<Rightarrow> unit prog" where
  "existingServer e cfg serverName srv privateNetwork =
    seq (emit (EvLog ''server %s (id %d) already exists, checking for necessary changes''
                 [S serverName, I (ID srv)])) (\<lambda>_.
    if \<not> privateNetworkAttached (PrivateNet srv) privateNetwork then
      seq (emit (EvAttachToNetwork (ID srv) (NetworkID privateNetwork))) (\<lambda>_.
      case Server_AttachToNetwork e srv privateNetwork of
        Inl err \<Rightarrow> Fatalf ''error request attach to network: %v'' [E err]
      | Inr act \<Rightarrow>
          (case ActionError act of
             Some err \<Rightarrow> Fatalf ''error attaching server to network: %v'' [E err]
           | None \<Rightarrow>
               emit (EvLog ''attached server to network %s'' [S (PrivateNetwork (HCloud cfg))])))
    else ret ())"

subsection \<open>The server does not exist: creation (lines 158-208)\<close>

fun waitNextActions :: "env \<Rightarrow> action list \<Rightarrow> unit prog" where
  "waitNextActions e [] = ret ()"
| "waitNextActions e (pastCreateAction # rest) =
     seq (waitForAction e pastCreateAction) (\<lambda>err.
     case err of
       Some x \<Rightarrow> Fatalf ''error waiting for action: %v'' [E x]
     | None \<Rightarrow> waitNextActions e rest)"

text \<open>
  The result is the \<open>server\<close> pointer after \<open>GetByID\<close>, which is \<open>nil\<close> when the
  provider no longer knows the identifier.
\<close>

definition createServer :: "env \<Rightarrow> config \<Rightarrow> string \<Rightarrow> sshKey \<Rightarrow> network \<Rightarrow> (server option) prog" where
  "createServer e cfg serverName key privateNetwork =
    seq (emit (EvLog ''creating server %s'' [S serverName])) (\<lambda>_.
    seq (emit (EvServerTypeGetByName (ServerType (HCloud cfg)))) (\<lambda>_.
    case ServerType_GetByName e (ServerType (HCloud cfg)) of
      Inl err \<Rightarrow> Fatalf ''error finding server type: %v'' [E err]
    | Inr serverType \<Rightarrow>
    seq (emit (EvImageGet (Image (HCloud cfg)))) (\<lambda>_.
    case Image_Get e (Image (HCloud cfg)) of
      Inl err \<Rightarrow> Fatalf ''error finding image: %v'' [E err]
    | Inr img \<Rightarrow>
    seq (emit (EvLocationGetByName (Location (HCloud cfg)))) (\<lambda>_.
    case Location_GetByName e (Location (HCloud cfg)) of
      Inl err \<Rightarrow> Fatalf ''error finding location: %v'' [E err]
    | Inr location \<Rightarrow>
    let createOpts = \<lparr>OptName = serverName, StartAfterCreate = False,
                        OptServerType = serverType, OptImage = img, OptLocation = location,
                        SSHKeys = [key], Networks = [privateNetwork]\<rparr>
    in
    seq (emit (EvServerCreate createOpts)) (\<lambda>_.
    case Server_Create e createOpts of
      Inl err \<Rightarrow> Fatalf ''error creating server: %v'' [E err]
    | Inr serverCreateResult \<Rightarrow>
        (case ActionError (CreateAction serverCreateResult) of
           Some err \<Rightarrow> Fatalf ''error creating server: %v'' [E err]
         | None \<Rightarrow>
             seq (waitForAction e (CreateAction serverCreateResult)) (\<lambda>err.
             case err of
               Some x \<Rightarrow> Fatalf ''error waiting for action: %v'' [E x]
             | None \<Rightarrow>
                 seq (waitNextActions e (NextActions serverCreateResult)) (\<lambda>_.
                 seq (emit (EvServerGetByID (ID (CreatedServer serverCreateResult)))) (\<lambda>_.
                 case Server_GetByID e (ID (CreatedServer serverCreateResult)) of
                   Inl err \<Rightarrow> Fatalf ''error requesting updated server object: %v'' [E err]
                 | Inr srv \<Rightarrow> ret srv)))))))))"

subsection \<open>Rendering the template (lines 210-265)\<close>

text \<open>
  \<open>*server\<close> is a nil dereference when \<open>GetByID\<close> answered \<open>nil\<close>. The template engine
  and the template command are outside the program: the closures \<open>ReadFile\<close> and \<open>Indent\<close>
  that \<open>main\<close> hands to the engine are called by the engine only and are part of its answer.
  After a failed template command \<open>err.(*exec.ExitError)\<close> panics for an error of another
  type.
\<close>

definition renderTemplate :: "env \<Rightarrow> config \<Rightarrow> server option \<Rightarrow> sshKey \<Rightarrow> string prog" where
  "renderTemplate e cfg serverp key =
    (if TemplateCommand (Flatcar cfg) = [] then
       seq (emit (EvLog ''rendering ignition config using native template at %s''
                    [S (ConfigTemplate (Flatcar cfg))])) (\<lambda>_.
       seq (emit (EvParseFiles (ConfigTemplate (Flatcar cfg)))) (\<lambda>_.
       case Template_ParseFiles e (ConfigTemplate (Flatcar cfg)) of
         Some err \<Rightarrow> Fatalf ''error loading template: %v'' [E err]
       | None \<Rightarrow>
           (case serverp of
              None \<Rightarrow> stop Panic
            | Some srv \<Rightarrow>
                seq (emit (EvExecute (ConfigTemplate (Flatcar cfg)))) (\<lambda>_.
                case Template_Execute e (ConfigTemplate (Flatcar cfg)) srv key
                       (TemplateStatic (Flatcar cfg)) of
                  Inl err \<Rightarrow> Fatalf ''error rendering template: %v'' [E err]
                | Inr content \<Rightarrow> ret content))))
     else
       seq (emit (EvLog ''rendering ignition config using command %s''
                    [S (TemplateCommand (Flatcar cfg))])) (\<lambda>_.
       case serverp of
         None \<Rightarrow> stop Panic
       | Some srv \<Rightarrow>
           seq (emit EvYamlMarshal) (\<lambda>_.
           case yaml_Marshal e srv key of
             Inl err \<Rightarrow> Fatalf ''error marshaling hcloud data to yaml: %v'' [E err]
           | Inr templateDataYAML \<Rightarrow>
               seq (emit (EvExecCommand (TemplateCommand (Flatcar cfg)) (Name srv))) (\<lambda>_.
               case Cmd_Output e (TemplateCommand (Flatcar cfg)) (Name srv) templateDataYAML of
                 Inl (ExitError msg stderr) \<Rightarrow>
                   seq (emit (EvLog stderr [])) (\<lambda>_.
                   Fatalf ''error running template command: %v'' [E (ExitError msg stderr)])
               | Inl err \<Rightarrow> stop Panic
               | Inr content \<Rightarrow> ret content))))"

subsection \<open>The call of \<open>transpileConfig\<close> (lines 267-270)\<close>

definition transpileStep :: "env \<Rightarrow> string \<Rightarrow> string prog" where
  "transpileStep e templateContent =
    seq (transpileConfig e templateContent) (\<lambda>(renderedPath, err).
    case err of
      Some x \<Rightarrow> Fatalf ''error transpiling config: %v'' [E x]
    | None \<Rightarrow> ret renderedPath)"

subsection \<open>The deferred removal of the temporary file (lines 272-276)\<close>

definition removeTemp :: "env \<Rightarrow> string \<Rightarrow> unit prog" where
  "removeTemp e path =
    seq (emit (EvRemove path)) (\<lambda>_.
    case os_Remove e path of
      Some err \<Rightarrow> Fatalf ''error removing tempfile: %v'' [E err]
    | None \<Rightarrow> deleteFile path)"

subsection \<open>Rescue boot, reboot or power on (lines 278-321)\<close>

definition ServerRescueTypeLinux64 :: string where
  "ServerRescueTypeLinux64 = ''linux64''"

text \<open>Lines 278-296.\<close>

definition enableRescue :: "env \<Rightarrow> server \<Rightarrow> sshKey \<Rightarrow> unit prog" where
  "enableRescue e srv key =
    (if \<not> RescueEnabled srv then
       seq (emit (EvLog ''enabling rescue boot'' [])) (\<lambda>_.
       seq (emit (EvEnableRescue (ID srv) ServerRescueTypeLinux64 [key])) (\<lambda>_.
       case Server_EnableRescue e srv [key] of
         Inl err \<Rightarrow> Fatalf ''error sending enablerescue request: %v'' [E err]
       | Inr act \<Rightarrow>
           (case ActionError act of
              Some err \<Rightarrow> Fatalf ''error enabling rescue: %v'' [E err]
            | None \<Rightarrow>
                seq (waitForAction e act) (\<lambda>err.
                case err of
                  Some x \<Rightarrow> Fatalf ''error waiting for action: %v'' [E x]
                | None \<Rightarrow> ret ()))))
     else ret ())"

text \<open>Lines 298-321.\<close>

definition rebootOrPoweron :: "env \<Rightarrow> server \<Rightarrow> unit prog" where
  "rebootOrPoweron e srv =
    seq (if Status srv = ServerStatusRunning then
           seq (emit (EvLog ''server already running, rebooting into rescue for reinstall'' [])) (\<lambda>_.
           seq (emit (EvReboot (ID srv))) (\<lambda>_. ret (Server_Reboot e srv)))
         else
           seq (emit (EvLog ''powering server on'' [])) (\<lambda>_.
           seq (emit (EvPoweron (ID srv))) (\<lambda>_. ret (Server_Poweron e srv)))) (\<lambda>answer.
    case answer of
      Inl err \<Rightarrow> Fatalf ''error sending reboot or poweron request: %v'' [E err]
    | Inr act \<Rightarrow>
        (case ActionError act of
           Some err \<Rightarrow> Fatalf ''error rebooting or powering on server: %v'' [E err]
         | None \<Rightarrow>
             seq (waitForAction e act) (\<lambda>err.
             case err of
               Some x \<Rightarrow> Fatalf ''error waiting for action: %v'' [E x]
             | None \<Rightarrow>
                 seq (emit (EvLog ''sleeping 30s to wait for server to (re)boot into rescue'' [])) (\<lambda>_.
                 emit (EvSleep 30)))))"

definition enterRescue :: "env \<Rightarrow> server \<Rightarrow> sshKey \<Rightarrow> unit prog" where
  "enterRescue e srv key =
    seq (enableRescue e srv key) (\<lambda>_. rebootOrPoweron e srv)"

subsection \<open>SSH authentication (lines 323-331)\<close>

definition sshAuthentication :: "env \<Rightarrow> config \<Rightarrow> unit prog" where
  "sshAuthentication e cfg =
    seq (if SSHKeyPrivatePath (HCloud cfg) \<noteq> [] then
           seq (emit (EvGophKey (SSHKeyPrivatePath (HCloud cfg)))) (\<lambda>_.
           ret (goph_Key e (SSHKeyPrivatePath (HCloud cfg))))
         else
           seq (emit EvGophUseAgent) (\<lambda>_. ret (goph_UseAgent e))) (\<lambda>err.
    case err of
      Some x \<Rightarrow> Fatalf ''error building ssh authentication: %v'' [E x]
    | None \<Rightarrow> ret ())"

subsection \<open>The connection loop (lines 333-358)\<close>

definition initialRetries :: nat where
  "initialRetries = 30"

text \<open>\<open>retryDelay\<close>, in seconds.\<close>

definition retryDelay :: nat where
  "retryDelay = 10"

text \<open>
  The loop \<open>for retries <= initialRetries\<close>, entered with \<open>retries\<close>; its result is
  \<open>connectionSuccess\<close> when the loop is left. The \<open>break\<close> after \<open>log.Fatalf\<close> is never
  reached.
\<close>

function connectLoop :: "env \<Rightarrow> string \<Rightarrow> nat \<Rightarrow> bool prog" where
  "connectLoop e addr retries =
    (if retries \<le> initialRetries then
       seq (emit (EvNewUnknown ''root'' addr)) (\<lambda>_.
       case goph_NewUnknown e retries of
         None \<Rightarrow> ret True
       | Some (NetError m) \<Rightarrow>
           seq (emit (EvLog ''retrying network error (%d/%d): %v''
                        [I (int retries), I (int initialRetries), E (NetError m)])) (\<lambda>_.
           seq (emit (EvSleep retryDelay)) (\<lambda>_.
           connectLoop e addr (retries + 1)))
       | Some err \<Rightarrow>
           Fatalf ''unretriable error while etablishing ssh connection: %v'' [E err])
     else ret False)"
  by pat_completeness auto
termination
  by (relation "measure (\<lambda>(e, addr, retries). Suc initialRetries - retries)") auto

declare connectLoop.simps [simp del]

definition connect :: "env \<Rightarrow> server \<Rightarrow> unit prog" where
  "connect e srv =
    seq (connectLoop e (IPv4 srv) 1) (\<lambda>connectionSuccess.
    if \<not> connectionSuccess then Fatalf ''ssh connection wasn't successful'' []
    else ret ())"

subsection \<open>Uploads (lines 363-385)\<close>

definition installScriptSource :: string where
  "installScriptSource =
     ''https://raw.githubusercontent.com/flatcar-linux/init/flatcar-master/bin/flatcar-install''"

definition installScriptTarget :: string where
  "installScriptTarget = ''/root/flatcar-install''"

definition ignitionTarget :: string where
  "ignitionTarget = ''/root/ignition.json''"

definition downloadCommand :: string where
  "downloadCommand = ''curl -sS -o '' @ installScriptTarget @ '' '' @ installScriptSource"

definition uploadArtifacts :: "env \<Rightarrow> config \<Rightarrow> string \<Rightarrow> unit prog" where
  "uploadArtifacts e cfg renderedPath =
    seq (if InstallScript (Flatcar cfg) \<noteq> [] then
           seq (emit (EvUpload (InstallScript (Flatcar cfg)) installScriptTarget)) (\<lambda>_.
           case Client_Upload e (InstallScript (Flatcar cfg)) installScriptTarget of
             Some err \<Rightarrow> Fatalf ''error uploading flatcar-install script: %v'' [E err]
           | None \<Rightarrow> ret ())
         else
           seq (emit (EvCommand downloadCommand)) (\<lambda>_.
           case Client_Command e downloadCommand of
             Some err \<Rightarrow> Fatalf ''error creating cmd for install script download: %v'' [E err]
           | None \<Rightarrow>
               seq (emit (EvRun downloadCommand)) (\<lambda>_.
               case Cmd_Run e downloadCommand of
                 Some err \<Rightarrow> Fatalf ''error downloading install script: %v'' [E err]
               | None \<Rightarrow> ret ()))) (\<lambda>_.
    seq (emit (EvUpload renderedPath ignitionTarget)) (\<lambda>_.
    case Client_Upload e renderedPath ignitionTarget of
      Some err \<Rightarrow> Fatalf ''error uploading ignition file: %v'' [E err]
    | None \<Rightarrow> ret ()))"

subsection \<open>The installation commands (lines 387-424)\<close>

definition installDeviceArg :: "config \<Rightarrow> string" where
  "installDeviceArg cfg =
    (if InstallDevice (Flatcar cfg) = [] then ''-s''
     else ''-d '' @ InstallDevice (Flatcar cfg))"

definition installCommand :: "config \<Rightarrow> string" where
  "installCommand cfg =
     installScriptTarget @ '' -i '' @ ignitionTarget @ '' -V '' @ Version (Flatcar cfg)
       @ '' '' @ installDeviceArg cfg @ '' '' @ InstallArgs (Flatcar cfg)"

definition commands :: "config \<Rightarrow> string list" where
  "commands cfg =
     [''apt update'',
      ''apt install -y gawk'',
      ''chmod +x '' @ installScriptTarget,
      installCommand cfg]"

text \<open>
  The loop over \<open>commands\<close>. The goroutine that copies the command's standard output to
  the log runs beside \<open>cmd.Run()\<close> and only logs; its lines are not part of the trace.
\<close>

fun runCommands :: "env \<Rightarrow> string list \<Rightarrow> unit prog" where
  "runCommands e [] = ret ()"
| "runCommands e (command # rest) =
     seq (emit (EvLog ''running command %s'' [S command])) (\<lambda>_.
     seq (emit (EvCommand command)) (\<lambda>_.
     case Client_Command e command of
       Some err \<Rightarrow> Fatalf ''error creating goph.Cmd for %s: %v'' [S command, E err]
     | None \<Rightarrow>
         seq (emit (EvStdoutPipe command)) (\<lambda>_.
         case Cmd_StdoutPipe e command of
           Some err \<Rightarrow> Fatalf ''error creating stdoutpipe for %s: %v'' [S command, E err]
         | None \<Rightarrow>
             seq (emit (EvRun command)) (\<lambda>_.
             case Cmd_Run e command of
               Some err \<Rightarrow> Fatalf ''error running command %s: %v'' [S command, E err]
             | None \<Rightarrow> runCommands e rest))))"

subsection \<open>The reboot command and the summary (lines 426-437)\<close>

definition rebootCommand :: string where
  "rebootCommand = ''reboot now''"

definition rebootNow :: "env \<Rightarrow> unit prog" where
  "rebootNow e =
    seq (emit (EvCommand rebootCommand)) (\<lambda>_.
    case Client_Command e rebootCommand of
      Some err \<Rightarrow> Fatalf ''error creating goph.Cmd for reboot command: %v'' [E err]
    | None \<Rightarrow>
        seq (emit (EvRun rebootCommand)) (\<lambda>_.
        case Cmd_Run e rebootCommand of
          Some err \<Rightarrow>
            emit (EvLog ''reboot command failed, VM probably rebooted anyways: %v'' [E err])
        | None \<Rightarrow> ret ()))"

definition summaryLine :: "server \<Rightarrow> event" where
  "summaryLine srv =
     EvLog ''successfully (re)installed %s, ID: %d IPv4: %s IPv6: %s''
       [S (Name srv), I (ID srv), S (IPv4 srv), S (IPv6 srv)]"

definition summary :: "server \<Rightarrow> unit prog" where
  "summary srv =
    seq (emit (EvLog ''------'' [])) (\<lambda>_. emit (summaryLine srv))"

section \<open>\<open>main\<close>\<close>

text \<open>
  The loop over the commands, the reboot command and the summary (lines 403-437); then
  \<open>main\<close> returns and the two deferred calls run last in, first out: \<open>sshClient.Close()\<close>
  and the removal of the temporary file.
\<close>

definition runAll :: "env \<Rightarrow> string list \<Rightarrow> server \<Rightarrow> string \<Rightarrow> unit prog" where
  "runAll e cmds srv renderedPath =
    seq (runCommands e cmds) (\<lambda>_.
    seq (rebootNow e) (\<lambda>_.
    seq (summary srv) (\<lambda>_.
    seq (emit EvClientClose) (\<lambda>_.
    removeTemp e renderedPath))))"

text \<open>From the server's rescue boot to the end of \<open>main\<close> (lines 278-438).\<close>

definition install :: "env \<Rightarrow> config \<Rightarrow> server \<Rightarrow> sshKey \<Rightarrow> string \<Rightarrow> unit prog" where
  "install e cfg srv key renderedPath =
    seq (enterRescue e srv key) (\<lambda>_.
    seq (sshAuthentication e cfg) (\<lambda>_.
    seq (connect e srv) (\<lambda>_.
    seq (uploadArtifacts e cfg renderedPath) (\<lambda>_.
    runAll e (commands cfg) srv renderedPath))))"

text \<open>
  Lines 101-276 and the call of the rest. A \<open>nil\<close> server reaches \<open>server.RescueEnabled\<close>
  in no run (\<open>renderTemplate\<close> dereferences it first); there the panic would run the
  deferred removal.
\<close>

definition deploy :: "env \<Rightarrow> config \<Rightarrow> string \<Rightarrow> unit prog" where
  "deploy e cfg serverName =
    seq (emit (EvSSHKeyGetByName (SSHKey (HCloud cfg)))) (\<lambda>_.
    case SSHKey_GetByName e (SSHKey (HCloud cfg)) of
      Inl err \<Rightarrow> Fatalf ''error requesting ssh key: %v'' [E err]
    | Inr None \<Rightarrow> Fatalf ''ssh key %s doesn't exist'' [S (SSHKey (HCloud cfg))]
    | Inr (Some key) \<Rightarrow>
    seq (emit (EvNetworkGetByName (PrivateNetwork (HCloud cfg)))) (\<lambda>_.
    case Network_GetByName e (PrivateNetwork (HCloud cfg)) of
      Inl err \<Rightarrow> Fatalf ''error requesting network: %v'' [E err]
    | Inr None \<Rightarrow> Fatalf ''network %s doesn't exist'' [S (PrivateNetwork (HCloud cfg))]
    | Inr (Some privateNetwork) \<Rightarrow>
    seq (emit (EvServerGetByName serverName)) (\<lambda>_.
    case Server_GetByName e serverName of
      Inl err \<Rightarrow> Fatalf ''error finding server: %v'' [E err]
    | Inr found \<Rightarrow>
    seq (case found of
           Some srv \<Rightarrow>
             seq (existingServer e cfg serverName srv privateNetwork) (\<lambda>_. ret (Some srv))
         | None \<Rightarrow> createServer e cfg serverName key privateNetwork) (\<lambda>serverp.
    seq (renderTemplate e cfg serverp key) (\<lambda>templateContent.
    seq (transpileStep e templateContent) (\<lambda>renderedPath.
    case serverp of
      None \<Rightarrow> seq (removeTemp e renderedPath) (\<lambda>_. stop Panic)
    | Some srv \<Rightarrow> install e cfg srv key renderedPath))))))"

text \<open>
  Lines 88-99. \<open>os.Args[1]\<close> is out of range when \<open>os.Args\<close> is empty.
\<close>

definition main :: "env \<Rightarrow> unit prog" where
  "main e =
    (case os_Args e of
       [arg0] \<Rightarrow>
         seq (emit (EvPrintf ''%s <server name>'' [S arg0])) (\<lambda>_. stop (Exit 1))
     | args \<Rightarrow>
         seq (emit (EvDecodeFile ''config.toml'')) (\<lambda>_.
         case ParseConfig (toml_DecodeFile e ''config.toml'') of
           (cfg, Some err) \<Rightarrow> Fatalf ''error parsing config: %v'' [E err]
         | (cfg, None) \<Rightarrow>
             (case args of
                arg0 # serverName # others \<Rightarrow> deploy e cfg serverName
              | _ \<Rightarrow> stop Panic)))"

text \<open>A run starts with an empty trace and no temporary file of its own.\<close>

definition start :: world where
  "start = \<lparr>trace = [], files = Map.empty\<rparr>"

section \<open>Reading a trace\<close>

text \<open>The durations of the sleeps of a trace, in order.\<close>

fun delays :: "event list \<Rightarrow> nat list" where
  "delays [] = []"
| "delays (EvSleep n # evs) = n # delays evs"
| "delays (ev # evs) = delays evs"

text \<open>The number of connection attempts of a trace.\<close>

fun connectionAttempts :: "event list \<Rightarrow> nat" where
  "connectionAttempts [] = 0"
| "connectionAttempts (EvNewUnknown user addr # evs) = Suc (connectionAttempts evs)"
| "connectionAttempts (ev # evs) = connectionAttempts evs"


text \<open>A trace without its log lines: the calls alone.\<close>

fun calls :: "event list \<Rightarrow> event list" where
  "calls [] = []"
| "calls (EvLog fmt args # evs) = calls evs"
| "calls (ev # evs) = ev # calls evs"

text \<open>
  The requests that change something at the provider: attach, create, enable rescue,
  reboot and power on.
\<close>

fun mutating :: "event \<Rightarrow> bool" where
  "mutating (EvAttachToNetwork sid nid) = True"
| "mutating (EvServerCreate opts) = True"
| "mutating (EvEnableRescue sid t ks) = True"
| "mutating (EvReboot sid) = True"
| "mutating (EvPoweron sid) = True"
| "mutating ev = False"


text \<open>
  An error surfaces a report when each diagnostic of the report can be read in the
  error's message.
\<close>

fun message :: "error \<Rightarrow> string" where
  "message (Error m) = m"
| "message (NetError m) = m"
| "message (ExitError m stderr) = m"

fun contains :: "string \<Rightarrow> string \<Rightarrow> bool" where
  "contains [] d = (d = [])"
| "contains (c # cs) d = (take (length d) (c # cs) = d \<or> contains cs d)"

definition surfaces :: "error \<Rightarrow> report \<Rightarrow> bool" where
  "surfaces err rep = list_all (contains (message err)) (diagnostics rep)"

section \<open>A sample deployment\<close>

text \<open>
  The end-to-end scenario: the machine \<open>web-1\<close> does not exist, the network \<open>prod-net\<close>
  does, and every call succeeds.
\<close>

definition sampleConfig :: config where
  "sampleConfig =
    \<lparr>HCloud = \<lparr>Token = ''secret'', SSHKey = ''ops'', SSHKeyPrivatePath = [],
                PrivateNetwork = ''prod-net'', ServerType = ''cx11'', Location = ''nbg1'',
                Image = []\<rparr>,
     Flatcar = \<lparr>InstallScript = [], Version = ''3139.2.0'', ConfigTemplate = [],
                 TemplateStatic = Map.empty, TemplateCommand = [], InstallDevice = [],
                 InstallArgs = []\<rparr>\<rparr>"

definition sampleKey :: sshKey where
  "sampleKey = \<lparr>KeyID = 5, KeyName = ''ops'', PublicKey = ''ssh-ed25519 AAAA''\<rparr>"

definition sampleNetwork :: network where
  "sampleNetwork = \<lparr>NetworkID = 3, NetworkName = ''prod-net''\<rparr>"

definition sampleServer :: server where
  "sampleServer =
    \<lparr>ID = 7, Name = ''web-1'', Status = ''off'', RescueEnabled = False, PrivateNet = [],
     IPv4 = ''203.0.113.7'', IPv6 = ''2001:db8::1''\<rparr>"

definition sampleAction :: "int \<Rightarrow> string \<Rightarrow> action" where
  "sampleAction n c = \<lparr>ActionID = n, Command = c, ActionError = None\<rparr>"

definition completes :: "int chan \<times> error option chan" where
  "completes = (\<lparr>sent = [0, 50, 100], closed = True\<rparr>, \<lparr>sent = [], closed = True\<rparr>)"

definition fails :: "error \<Rightarrow> int chan \<times> error option chan" where
  "fails err = (\<lparr>sent = [0, 50], closed = True\<rparr>, \<lparr>sent = [Some err], closed = True\<rparr>)"

definition sampleEnv :: env where
  "sampleEnv =
    \<lparr>os_Args = [''hetzner-flatcar'', ''web-1''],
     toml_DecodeFile = (\<lambda>f. (sampleConfig, None)),
     SSHKey_GetByName = (\<lambda>n. Inr (Some sampleKey)),
     Network_GetByName = (\<lambda>n. Inr (Some sampleNetwork)),
     Server_GetByName = (\<lambda>n. Inr None),
     Server_AttachToNetwork = (\<lambda>srv net. Inr (sampleAction 11 ''attach_to_network'')),
     ServerType_GetByName = (\<lambda>n. Inr (Some \<lparr>ServerTypeName = n\<rparr>)),
     Image_Get = (\<lambda>n. Inr (Some \<lparr>ImageName = n\<rparr>)),
     Location_GetByName = (\<lambda>n. Inr (Some \<lparr>LocationName = n\<rparr>)),
     Server_Create = (\<lambda>opts. Inr \<lparr>CreatedServer = sampleServer,
                                       CreateAction = sampleAction 12 ''create_server'',
                                       NextActions = []\<rparr>),
     Server_GetByID = (\<lambda>n. Inr (Some sampleServer)),
     Action_WatchProgress = (\<lambda>act. completes),
     Template_ParseFiles = (\<lambda>f. None),
     Template_Execute = (\<lambda>f srv key static. Inr ''passwd: {}''),
     yaml_Marshal = (\<lambda>srv key. Inr ''hetzner: {}''),
     Cmd_Output = (\<lambda>c a stdin. Inr ''passwd: {}''),
     clconfig_Parse = (\<lambda>input. ((input, input), \<lparr>diagnostics = [], fatal = False\<rparr>)),
     clconfig_Convert = (\<lambda>c platform pt. (c, \<lparr>diagnostics = [], fatal = False\<rparr>)),
     json_Marshal = (\<lambda>c. Inr ''{}''),
     os_CreateTemp = Inr ''/tmp/ignition1'',
     File_Write = (\<lambda>f content. None),
     os_Remove = (\<lambda>f. None),
     Server_EnableRescue = (\<lambda>srv ks. Inr (sampleAction 13 ''enable_rescue'')),
     Server_Reboot = (\<lambda>srv. Inr (sampleAction 14 ''reboot_server'')),
     Server_Poweron = (\<lambda>srv. Inr (sampleAction 15 ''start_server'')),
     goph_Key = (\<lambda>f. None),
     goph_UseAgent = None,
     goph_NewUnknown = (\<lambda>k. None),
     Client_Upload = (\<lambda>l r. None),
     Client_Command = (\<lambda>c. None),
     Cmd_StdoutPipe = (\<lambda>c. None),
     Cmd_Run = (\<lambda>c. None)\<rparr>"

text \<open>The server exists without the network, and the attach action fails at the provider.\<close>

definition attachEnv :: env where
  "attachEnv =
    sampleEnv\<lparr>Server_GetByName := (\<lambda>n. Inr (Some sampleServer)),
              Action_WatchProgress :=
                (\<lambda>act. if Command act = ''attach_to_network''
                       then fails (Error ''network not ready'') else completes)\<rparr>"

text \<open>The request to enable the rescue boot is refused.\<close>

definition rescueFailsEnv :: env where
  "rescueFailsEnv =
    sampleEnv\<lparr>Server_EnableRescue := (\<lambda>srv ks. Inl (Error ''rate limit exceeded''))\<rparr>"

text \<open>The provider knows no location of the configured name.\<close>

definition noLocationEnv :: env where
  "noLocationEnv = sampleEnv\<lparr>Location_GetByName := (\<lambda>n. Inr None)\<rparr>"

text \<open>
  A fatal report with one diagnostic; the parser answers with it; the converter answers
  with it.
\<close>

definition brokenYaml :: report where
  "brokenYaml =
    \<lparr>diagnostics = [''line 3: mapping values are not allowed here''], fatal = True\<rparr>"

definition parseFailsEnv :: env where
  "parseFailsEnv = sampleEnv\<lparr>clconfig_Parse := (\<lambda>input. ((input, input), brokenYaml))\<rparr>"

definition convertFailsEnv :: env where
  "convertFailsEnv = sampleEnv\<lparr>clconfig_Convert := (\<lambda>c platform pt. (c, brokenYaml))\<rparr>"

text \<open>Every action fails at the provider.\<close>

definition limitEnv :: env where
  "limitEnv =
    sampleEnv\<lparr>Action_WatchProgress := (\<lambda>act. fails (Error ''server limit reached''))\<rparr>"


text \<open>
  The rescue system refuses the first two connections; it refuses one and then rejects the
  key; it is never reachable.
\<close>

definition flakyEnv :: env where
  "flakyEnv =
    sampleEnv\<lparr>goph_NewUnknown :=
      (\<lambda>k. if k \<le> 2 then Some (NetError ''dial tcp 203.0.113.7:22: connection refused'')
           else None)\<rparr>"

definition rejectedEnv :: env where
  "rejectedEnv =
    sampleEnv\<lparr>goph_NewUnknown :=
      (\<lambda>k. if k \<le> 1 then Some (NetError ''dial tcp 203.0.113.7:22: connection refused'')
           else Some (Error ''ssh: unable to authenticate''))\<rparr>"

definition unreachableEnv :: env where
  "unreachableEnv =
    sampleEnv\<lparr>goph_NewUnknown :=
      (\<lambda>k. Some (NetError ''dial tcp 203.0.113.7:22: i/o timeout''))\<rparr>"



section \<open>Notions for the proofs\<close>

text \<open>
  What \<open>waitForAction\<close> returns does not depend on the state it starts in, and a step
  appends to the trace.
\<close>

definition waitOutcome :: "env \<Rightarrow> action \<Rightarrow> halt + error option" where
  "waitOutcome e act = fst (waitForAction e act start)"


section \<open>Unfolding the program\<close>

lemmas step_defs = main_def deploy_def install_def runAll_def summary_def summaryLine_def
  rebootNow_def uploadArtifacts_def connect_def sshAuthentication_def enterRescue_def enableRescue_def
  rebootOrPoweron_def
  removeTemp_def transpileStep_def transpileConfig_def renderTemplate_def createServer_def
  existingServer_def waitForAction_def receive_def ParseConfig_def verifyConfig_def IsFatal_def
  commands_def installCommand_def installDeviceArg_def initialRetries_def retryDelay_def
  rebootCommand_def downloadCommand_def installScriptTarget_def installScriptSource_def
  ignitionTarget_def ServerStatusRunning_def ServerRescueTypeLinux64_def

lemmas prog_defs = ret_def seq_def emit_def stop_def Fatalf_def createFile_def writeFile_def
  deleteFile_def

lemmas sample_defs = sampleEnv_def sampleConfig_def sampleKey_def sampleNetwork_def
  sampleServer_def sampleAction_def completes_def fails_def start_def

section \<open>The configuration check\<close>

text \<open>
  C10. \<open>verifyConfig\<close> returns an error exactly when one of the token, the SSH key, the
  private network, the server type, the location or the Flatcar version is empty. When it
  returns no error, the struct it leaves behind is the one it was given, with an empty
  image replaced by \<open>debian-11\<close> and an empty template path replaced by
  \<open>ignition.yml.gtpl\<close>; an empty image alone is therefore no error.
\<close>

theorem verifyConfig_spec:
  "(snd (verifyConfig conf) \<noteq> None) =
     (Token (HCloud conf) = [] \<or> SSHKey (HCloud conf) = [] \<or> PrivateNetwork (HCloud conf) = []
       \<or> ServerType (HCloud conf) = [] \<or> Location (HCloud conf) = [] \<or> Version (Flatcar conf) = [])
   \<and> (snd (verifyConfig conf) = None \<longrightarrow>
        fst (verifyConfig conf) =
          conf\<lparr>HCloud := (HCloud conf)\<lparr>Image :=
                   (if Image (HCloud conf) = [] then ''debian-11'' else Image (HCloud conf))\<rparr>,
               Flatcar := (Flatcar conf)\<lparr>ConfigTemplate :=
                   (if ConfigTemplate (Flatcar conf) = [] then ''ignition.yml.gtpl''
                    else ConfigTemplate (Flatcar conf))\<rparr>\<rparr>)"
  by (simp add: verifyConfig_def Let_def)

theorem verifyConfig_spec_witness:
  "snd (verifyConfig sampleConfig) = None
   \<and> Image (HCloud (fst (verifyConfig sampleConfig))) = ''debian-11''
   \<and> ConfigTemplate (Flatcar (fst (verifyConfig sampleConfig))) = ''ignition.yml.gtpl''"
proof -
  have ok: "snd (verifyConfig sampleConfig) = None"
    by (simp add: verifyConfig_def sampleConfig_def)
  with verifyConfig_spec [of sampleConfig] show ?thesis
    by (simp add: sampleConfig_def)
qed

section \<open>Waiting for an action\<close>

lemma rangeProgress_iff: "rangeProgress ps s = (s \<or> 100 \<in> set ps)"
  by (induction ps arbitrary: s) auto

text \<open>
  C4. When the progress channel is closed after its values: if the values end in 100,
  \<open>waitForAction\<close> returns \<open>nil\<close>; if 100 is not among them, it returns what the receive
  from the error channel yields, which is the error waiting there.
\<close>

theorem waitForAction_result:
  assumes "Action_WatchProgress e act = (progressChannel, errorChannel)"
      and "closed progressChannel"
  shows "(sent progressChannel \<noteq> [] \<and> last (sent progressChannel) = 100 \<longrightarrow>
            fst (waitForAction e act w) = Inr None)
       \<and> (100 \<notin> set (sent progressChannel) \<longrightarrow>
            fst (waitForAction e act w) = fst (receive errorChannel w)
            \<and> (\<forall>err rest. sent errorChannel = err # rest \<longrightarrow>
                  fst (waitForAction e act w) = Inr err))"
proof (intro conjI impI allI)
  assume "sent progressChannel \<noteq> [] \<and> last (sent progressChannel) = 100"
  then have "100 \<in> set (sent progressChannel)"
    using last_in_set by metis
  with assms show "fst (waitForAction e act w) = Inr None"
    by (simp add: waitForAction_def rangeProgress_iff prog_defs)
next
  assume no: "100 \<notin> set (sent progressChannel)"
  with assms show eq: "fst (waitForAction e act w) = fst (receive errorChannel w)"
    by (simp add: waitForAction_def receive_def rangeProgress_iff prog_defs split: list.splits)
  fix err rest
  assume "sent errorChannel = err # rest"
  with eq show "fst (waitForAction e act w) = Inr err"
    by (simp add: receive_def ret_def)
qed

theorem waitForAction_result_witness:
  "fst (waitForAction sampleEnv (sampleAction 12 ''create_server'') start) = Inr None
   \<and> fst (waitForAction limitEnv (sampleAction 12 ''create_server'') start)
       = Inr (Some (Error ''server limit reached''))"
proof -
  have a: "Action_WatchProgress sampleEnv (sampleAction 12 ''create_server'')
             = (\<lparr>sent = [0, 50, 100], closed = True\<rparr>, \<lparr>sent = [], closed = True\<rparr>)"
    by (simp add: sampleEnv_def completes_def)
  have b: "Action_WatchProgress limitEnv (sampleAction 12 ''create_server'')
             = (\<lparr>sent = [0, 50], closed = True\<rparr>,
                \<lparr>sent = [Some (Error ''server limit reached'')], closed = True\<rparr>)"
    by (simp add: limitEnv_def fails_def)
  from waitForAction_result [OF a, of start] waitForAction_result [OF b, of start]
  show ?thesis by (simp add: receive_def ret_def)
qed

section \<open>Transpiling\<close>

text \<open>
  C7, as amended. \<open>transpileConfig\<close> has two failure points with two distinct errors: a
  fatal parse report gives the error \<open>config parsing failed\<close>, a fatal conversion report
  gives \<open>config conversion failed\<close>. Each is that fixed message, whatever the report holds,
  and nothing is written. Any error \<open>transpileConfig\<close> returns ends the run with status 1.
\<close>

theorem transpileConfig_failures:
  "(IsFatal (snd (clconfig_Parse e input)) \<longrightarrow>
      transpileConfig e input w = (Inr ([], Some (Error ''config parsing failed'')), w))
   \<and> (\<not> IsFatal (snd (clconfig_Parse e input))
       \<and> IsFatal (snd (clconfig_Convert e (fst (fst (clconfig_Parse e input))) []
                          (snd (fst (clconfig_Parse e input))))) \<longrightarrow>
      transpileConfig e input w = (Inr ([], Some (Error ''config conversion failed'')), w))
   \<and> Error ''config parsing failed'' \<noteq> Error ''config conversion failed''
   \<and> (\<forall>path x. fst (transpileConfig e input w) = Inr (path, Some x) \<longrightarrow>
         fst (transpileStep e input w) = Inl (Exit 1))"
  by (auto simp add: transpileConfig_def transpileStep_def prog_defs
      split: prod.splits sum.splits option.splits)

theorem transpileConfig_failures_witness:
  "transpileConfig parseFailsEnv ''passwd: {'' start
      = (Inr ([], Some (Error ''config parsing failed'')), start)
   \<and> transpileConfig convertFailsEnv ''passwd: {'' start
      = (Inr ([], Some (Error ''config conversion failed'')), start)
   \<and> fst (transpileStep parseFailsEnv ''passwd: {'' start) = Inl (Exit 1)"
  using transpileConfig_failures [of parseFailsEnv "''passwd: {''" start]
        transpileConfig_failures [of convertFailsEnv "''passwd: {''" start]
  by (simp add: IsFatal_def brokenYaml_def sampleEnv_def parseFailsEnv_def convertFailsEnv_def)

text \<open>
  The error returned for a fatal parse report with the diagnostic
  \<open>line 3: mapping values are not allowed here\<close> is \<open>config parsing failed\<close>: the
  diagnostic cannot be read in it.
\<close>

theorem transpileConfig_drops_report:
  "fst (transpileConfig parseFailsEnv ''passwd: {'' start)
     = Inr ([], Some (Error ''config parsing failed''))
   \<and> snd (clconfig_Parse parseFailsEnv ''passwd: {'') = brokenYaml
   \<and> \<not> surfaces (Error ''config parsing failed'') brokenYaml"
  by (simp add: transpileConfig_def IsFatal_def brokenYaml_def surfaces_def prog_defs
      parseFailsEnv_def)

section \<open>An existing server\<close>

text \<open>
  C1, at a server that exists without the desired network. The program sends the attach
  request, logs that the server is attached and goes on: it subscribes to no progress
  feed, although the attach action of this run fails at the provider.
\<close>

theorem existingServer_does_not_wait:
  "existingServer attachEnv sampleConfig ''web-1'' sampleServer sampleNetwork start =
     (Inr (),
      \<lparr>trace = [EvLog ''server %s (id %d) already exists, checking for necessary changes''
                   [S ''web-1'', I 7],
                 EvAttachToNetwork 7 3,
                 EvLog ''attached server to network %s'' [S ''prod-net'']],
       files = Map.empty\<rparr>)"
  by (simp add: attachEnv_def step_defs prog_defs sample_defs)

text \<open>
  On every path the calls of this step are the attach request alone when the network is
  missing, and none when it is attached.
\<close>

lemma privateNetworkAttached_iff:
  "privateNetworkAttached nets privateNetwork =
     (\<exists>n\<in>set nets. NetworkID (Network n) = NetworkID privateNetwork)"
  by (induction nets) auto

lemma calls_snoc: "calls (xs @ ys) = calls xs @ calls ys"
  by (induction xs rule: calls.induct) simp_all

lemma existingServer_calls:
  "calls (trace (snd (existingServer e cfg serverName srv privateNetwork w))) =
     calls (trace w) @
       (if privateNetworkAttached (PrivateNet srv) privateNetwork then []
        else [EvAttachToNetwork (ID srv) (NetworkID privateNetwork)])"
  by (simp add: existingServer_def prog_defs calls_snoc split: sum.splits option.splits)

lemma existingServer_mutating:
  "filter mutating (trace (snd (existingServer e cfg serverName srv privateNetwork w))) =
     filter mutating (trace w) @
       (if privateNetworkAttached (PrivateNet srv) privateNetwork then []
        else [EvAttachToNetwork (ID srv) (NetworkID privateNetwork)])"
  by (simp add: existingServer_def prog_defs split: sum.splits option.splits)

section \<open>The temporary file\<close>

text \<open>
  C2, at a run whose request to enable the rescue boot is refused. The run ends with
  status 1, the temporary file is still there with its content, and no removal was
  attempted.
\<close>

theorem tempfile_left_behind:
  "fst (main rescueFailsEnv start) = Inl (Exit 1)
   \<and> files (snd (main rescueFailsEnv start)) ''/tmp/ignition1'' = Some ''{}''
   \<and> EvRemove ''/tmp/ignition1'' \<notin> set (trace (snd (main rescueFailsEnv start)))"
  by (simp add: rescueFailsEnv_def step_defs prog_defs sample_defs)

text \<open>When the sample run returns, the file is gone.\<close>

lemma tempfile_removed_on_return:
  "fst (main sampleEnv start) = Inr ()
   \<and> files (snd (main sampleEnv start)) ''/tmp/ignition1'' = None
   \<and> EvRemove ''/tmp/ignition1'' \<in> set (trace (snd (main sampleEnv start)))"
  by (simp add: step_defs prog_defs sample_defs connectLoop.simps)

section \<open>Creation\<close>

text \<open>
  C3, at a run where the server does not exist and the provider knows no location of the
  configured name. The create request is sent, without a location, and the run goes on to
  its end.
\<close>

theorem create_without_location:
  "EvServerCreate \<lparr>OptName = ''web-1'', StartAfterCreate = False,
       OptServerType = Some \<lparr>ServerTypeName = ''cx11''\<rparr>,
       OptImage = Some \<lparr>ImageName = ''debian-11''\<rparr>, OptLocation = None,
       SSHKeys = [sampleKey], Networks = [sampleNetwork]\<rparr>
     \<in> set (trace (snd (main noLocationEnv start)))
   \<and> fst (main noLocationEnv start) = Inr ()"
  by (simp add: noLocationEnv_def step_defs prog_defs sample_defs connectLoop.simps)

section \<open>The connection loop\<close>

lemma delays_append: "delays (xs @ ys) = delays xs @ delays ys"
  by (induction xs rule: delays.induct) simp_all

lemma connectionAttempts_append:
  "connectionAttempts (xs @ ys) = connectionAttempts xs + connectionAttempts ys"
  by (induction xs rule: connectionAttempts.induct) simp_all

lemma connectLoop_retry:
  assumes "retries \<le> 30" and "goph_NewUnknown e retries = Some (NetError m)"
  shows "connectLoop e addr retries w =
           connectLoop e addr (Suc retries)
             (w\<lparr>trace := trace w @ [EvNewUnknown ''root'' addr,
                  EvLog ''retrying network error (%d/%d): %v''
                    [I (int retries), I 30, E (NetError m)],
                  EvSleep 10]\<rparr>)"
  using assms by (subst connectLoop.simps) (simp add: prog_defs initialRetries_def retryDelay_def)

lemma connectLoop_connected:
  assumes "retries \<le> 30" and "goph_NewUnknown e retries = None"
  shows "connectLoop e addr retries w =
           (Inr True, w\<lparr>trace := trace w @ [EvNewUnknown ''root'' addr]\<rparr>)"
  using assms by (subst connectLoop.simps) (simp add: prog_defs initialRetries_def)

lemma connectLoop_fatal:
  assumes "retries \<le> 30" and "goph_NewUnknown e retries = Some err" and "\<forall>m. err \<noteq> NetError m"
  shows "connectLoop e addr retries w =
           (Inl (Exit 1), w\<lparr>trace := trace w @ [EvNewUnknown ''root'' addr,
              EvLog ''unretriable error while etablishing ssh connection: %v'' [E err]]\<rparr>)"
  using assms
  by (subst connectLoop.simps) (cases err; simp add: prog_defs initialRetries_def)

lemma connectLoop_exhausted:
  assumes "30 < retries"
  shows "connectLoop e addr retries w = (Inr False, w)"
  using assms by (subst connectLoop.simps) (simp add: prog_defs initialRetries_def)

lemma connectLoop_retries:
  assumes "\<forall>k. r \<le> k \<and> k < r + n \<longrightarrow> (\<exists>m. goph_NewUnknown e k = Some (NetError m))"
      and "r + n \<le> 31"
  shows "\<exists>w'. connectLoop e addr r w = connectLoop e addr (r + n) w'
            \<and> delays (trace w') = delays (trace w) @ replicate n 10
            \<and> connectionAttempts (trace w') = connectionAttempts (trace w) + n"
  using assms
proof (induction n arbitrary: r w)
  case 0
  show ?case by (intro exI [of _ w]) simp
next
  case (Suc n)
  from Suc.prems(1) have "\<exists>m. goph_NewUnknown e r = Some (NetError m)"
    by simp
  then obtain m where m: "goph_NewUnknown e r = Some (NetError m)" ..
  from Suc.prems have r: "r \<le> 30" by simp
  let ?w1 = "w\<lparr>trace := trace w @ [EvNewUnknown ''root'' addr,
                  EvLog ''retrying network error (%d/%d): %v'' [I (int r), I 30, E (NetError m)],
                  EvSleep 10]\<rparr>"
  have step: "connectLoop e addr r w = connectLoop e addr (Suc r) ?w1"
    using r m by (rule connectLoop_retry)
  have "\<forall>k. Suc r \<le> k \<and> k < Suc r + n \<longrightarrow> (\<exists>m. goph_NewUnknown e k = Some (NetError m))"
    using Suc.prems(1) by simp
  moreover have "Suc r + n \<le> 31" using Suc.prems(2) by simp
  ultimately obtain w' where w':
    "connectLoop e addr (Suc r) ?w1 = connectLoop e addr (Suc r + n) w'"
    "delays (trace w') = delays (trace ?w1) @ replicate n 10"
    "connectionAttempts (trace w') = connectionAttempts (trace ?w1) + n"
    using Suc.IH [of "Suc r" ?w1] by blast
  show ?case
  proof (intro exI conjI)
    show "connectLoop e addr r w = connectLoop e addr (r + Suc n) w'"
      using step w'(1) by simp
    show "delays (trace w') = delays (trace w) @ replicate (Suc n) 10"
      using w'(2) by (simp add: delays_append replicate_append_same)
    show "connectionAttempts (trace w') = connectionAttempts (trace w) + Suc n"
      using w'(3) by (simp add: connectionAttempts_append)
  qed
qed

text \<open>
  C5. When the first \<open>N\<close> attempts (\<open>N < 30\<close>) fail with network errors and attempt
  \<open>N + 1\<close> succeeds, the run goes on after exactly \<open>N\<close> sleeps of 10 seconds and
  \<open>N + 1\<close> attempts. When attempt \<open>N + 1\<close> fails with an error that is no network error,
  the run ends with status 1 after that attempt, with no further attempt and no further
  sleep. When all 30 attempts fail with network errors, the run ends with status 1 after
  the 30th.
\<close>

theorem connect_retry:
  "(N < 30 \<and> (\<forall>k. 1 \<le> k \<and> k \<le> N \<longrightarrow> (\<exists>m. goph_NewUnknown e k = Some (NetError m)))
      \<and> goph_NewUnknown e (N + 1) = None \<longrightarrow>
        fst (connect e srv w) = Inr ()
        \<and> delays (trace (snd (connect e srv w))) = delays (trace w) @ replicate N 10
        \<and> connectionAttempts (trace (snd (connect e srv w))) = connectionAttempts (trace w) + (N + 1))
   \<and> (N < 30 \<and> (\<forall>k. 1 \<le> k \<and> k \<le> N \<longrightarrow> (\<exists>m. goph_NewUnknown e k = Some (NetError m)))
      \<and> goph_NewUnknown e (N + 1) = Some err \<and> (\<forall>m. err \<noteq> NetError m) \<longrightarrow>
        fst (connect e srv w) = Inl (Exit 1)
        \<and> delays (trace (snd (connect e srv w))) = delays (trace w) @ replicate N 10
        \<and> connectionAttempts (trace (snd (connect e srv w))) = connectionAttempts (trace w) + (N + 1))
   \<and> ((\<forall>k. 1 \<le> k \<and> k \<le> 30 \<longrightarrow> (\<exists>m. goph_NewUnknown e k = Some (NetError m))) \<longrightarrow>
        fst (connect e srv w) = Inl (Exit 1)
        \<and> delays (trace (snd (connect e srv w))) = delays (trace w) @ replicate 30 10
        \<and> connectionAttempts (trace (snd (connect e srv w))) = connectionAttempts (trace w) + 30)"
proof (intro conjI impI)
  assume h: "N < 30 \<and> (\<forall>k. 1 \<le> k \<and> k \<le> N \<longrightarrow> (\<exists>m. goph_NewUnknown e k = Some (NetError m)))
      \<and> goph_NewUnknown e (N + 1) = None"
  then have "\<forall>k. 1 \<le> k \<and> k < 1 + N \<longrightarrow> (\<exists>m. goph_NewUnknown e k = Some (NetError m))"
    and "1 + N \<le> 31" by auto
  then obtain w' where w': "connectLoop e (IPv4 srv) 1 w = connectLoop e (IPv4 srv) (1 + N) w'"
    "delays (trace w') = delays (trace w) @ replicate N 10"
    "connectionAttempts (trace w') = connectionAttempts (trace w) + N"
    using connectLoop_retries [of 1 N e "IPv4 srv" w] by blast
  have "connectLoop e (IPv4 srv) (1 + N) w'
          = (Inr True, w'\<lparr>trace := trace w' @ [EvNewUnknown ''root'' (IPv4 srv)]\<rparr>)"
    using h by (intro connectLoop_connected) auto
  with w' have c: "connect e srv w = (Inr (), w'\<lparr>trace := trace w' @ [EvNewUnknown ''root'' (IPv4 srv)]\<rparr>)"
    by (simp add: connect_def prog_defs)
  show "fst (connect e srv w) = Inr ()" using c by simp
  show "delays (trace (snd (connect e srv w))) = delays (trace w) @ replicate N 10"
    using c w' by (simp add: delays_append)
  show "connectionAttempts (trace (snd (connect e srv w))) = connectionAttempts (trace w) + (N + 1)"
    using c w' by (simp add: connectionAttempts_append)
next
  assume h: "N < 30 \<and> (\<forall>k. 1 \<le> k \<and> k \<le> N \<longrightarrow> (\<exists>m. goph_NewUnknown e k = Some (NetError m)))
      \<and> goph_NewUnknown e (N + 1) = Some err \<and> (\<forall>m. err \<noteq> NetError m)"
  then have "\<forall>k. 1 \<le> k \<and> k < 1 + N \<longrightarrow> (\<exists>m. goph_NewUnknown e k = Some (NetError m))"
    and "1 + N \<le> 31" by auto
  then obtain w' where w': "connectLoop e (IPv4 srv) 1 w = connectLoop e (IPv4 srv) (1 + N) w'"
    "delays (trace w') = delays (trace w) @ replicate N 10"
    "connectionAttempts (trace w') = connectionAttempts (trace w) + N"
    using connectLoop_retries [of 1 N e "IPv4 srv" w] by blast
  have "connectLoop e (IPv4 srv) (1 + N) w'
          = (Inl (Exit 1), w'\<lparr>trace := trace w' @ [EvNewUnknown ''root'' (IPv4 srv),
              EvLog ''unretriable error while etablishing ssh connection: %v'' [E err]]\<rparr>)"
    using h by (intro connectLoop_fatal) auto
  with w' have c: "connect e srv w = (Inl (Exit 1), w'\<lparr>trace := trace w' @ [EvNewUnknown ''root'' (IPv4 srv),
              EvLog ''unretriable error while etablishing ssh connection: %v'' [E err]]\<rparr>)"
    by (simp add: connect_def prog_defs)
  show "fst (connect e srv w) = Inl (Exit 1)" using c by simp
  show "delays (trace (snd (connect e srv w))) = delays (trace w) @ replicate N 10"
    using c w' by (simp add: delays_append)
  show "connectionAttempts (trace (snd (connect e srv w))) = connectionAttempts (trace w) + (N + 1)"
    using c w' by (simp add: connectionAttempts_append)
next
  assume h: "\<forall>k. 1 \<le> k \<and> k \<le> 30 \<longrightarrow> (\<exists>m. goph_NewUnknown e k = Some (NetError m))"
  then have "\<forall>k. 1 \<le> k \<and> k < 1 + 30 \<longrightarrow> (\<exists>m. goph_NewUnknown e k = Some (NetError m))"
    by auto
  then obtain w' where w': "connectLoop e (IPv4 srv) 1 w = connectLoop e (IPv4 srv) (1 + 30) w'"
    "delays (trace w') = delays (trace w) @ replicate 30 10"
    "connectionAttempts (trace w') = connectionAttempts (trace w) + 30"
    using connectLoop_retries [of 1 30 e "IPv4 srv" w] by auto
  have "connectLoop e (IPv4 srv) (1 + 30) w' = (Inr False, w')"
    by (intro connectLoop_exhausted) simp
  with w' have c: "connect e srv w =
      (Inl (Exit 1), w'\<lparr>trace := trace w' @ [EvLog ''ssh connection wasn't successful'' []]\<rparr>)"
    by (simp add: connect_def prog_defs)
  show "fst (connect e srv w) = Inl (Exit 1)" using c by simp
  show "delays (trace (snd (connect e srv w))) = delays (trace w) @ replicate 30 10"
    using c w' by (simp add: delays_append)
  show "connectionAttempts (trace (snd (connect e srv w))) = connectionAttempts (trace w) + 30"
    using c w' by (simp add: connectionAttempts_append)
qed

theorem connect_retry_witness:
  "fst (connect flakyEnv sampleServer start) = Inr ()
   \<and> delays (trace (snd (connect flakyEnv sampleServer start))) = [10, 10]
   \<and> connectionAttempts (trace (snd (connect flakyEnv sampleServer start))) = 3
   \<and> fst (connect rejectedEnv sampleServer start) = Inl (Exit 1)
   \<and> connectionAttempts (trace (snd (connect rejectedEnv sampleServer start))) = 2
   \<and> fst (connect unreachableEnv sampleServer start) = Inl (Exit 1)
   \<and> connectionAttempts (trace (snd (connect unreachableEnv sampleServer start))) = 30"
proof -
  have a: "2 < (30::nat) \<and> (\<forall>k. 1 \<le> k \<and> k \<le> 2 \<longrightarrow> (\<exists>m. goph_NewUnknown flakyEnv k = Some (NetError m)))
      \<and> goph_NewUnknown flakyEnv (2 + 1) = None"
    by (simp add: flakyEnv_def)
  have b: "1 < (30::nat) \<and> (\<forall>k. 1 \<le> k \<and> k \<le> 1 \<longrightarrow> (\<exists>m. goph_NewUnknown rejectedEnv k = Some (NetError m)))
      \<and> goph_NewUnknown rejectedEnv (1 + 1) = Some (Error ''ssh: unable to authenticate'')
      \<and> (\<forall>m. Error ''ssh: unable to authenticate'' \<noteq> NetError m)"
    by (simp add: rejectedEnv_def)
  have c: "\<forall>k. 1 \<le> k \<and> k \<le> 30 \<longrightarrow> (\<exists>m. goph_NewUnknown unreachableEnv k = Some (NetError m))"
    by (simp add: unreachableEnv_def)
  from a connect_retry [where N = 2 and e = flakyEnv and srv = sampleServer and w = start]
  have "fst (connect flakyEnv sampleServer start) = Inr ()
   \<and> delays (trace (snd (connect flakyEnv sampleServer start))) = [10, 10]
   \<and> connectionAttempts (trace (snd (connect flakyEnv sampleServer start))) = 3"
    by (simp add: start_def numeral_2_eq_2)
  moreover from b connect_retry [where N = 1 and e = rejectedEnv and srv = sampleServer and w = start
      and err = "Error ''ssh: unable to authenticate''"]
  have "fst (connect rejectedEnv sampleServer start) = Inl (Exit 1)
   \<and> connectionAttempts (trace (snd (connect rejectedEnv sampleServer start))) = 2"
    by (simp add: start_def)
  moreover from c connect_retry [where e = unreachableEnv and srv = sampleServer and w = start]
  have "fst (connect unreachableEnv sampleServer start) = Inl (Exit 1)
   \<and> connectionAttempts (trace (snd (connect unreachableEnv sampleServer start))) = 30"
    by (simp add: start_def)
  ultimately show ?thesis by simp
qed

section \<open>The installation commands\<close>









section \<open>The command line and the summary\<close>











section \<open>Rescue boot\<close>















lemma waitForAction_split:
  "waitForAction e act w =
     (waitOutcome e act,
      w\<lparr>trace := trace w @ [EvLog ''waiting for action %s to complete'' [S (Command act)],
                             EvWatchProgress act]\<rparr>)"
  by (simp add: waitOutcome_def waitForAction_def receive_def prog_defs
      split: prod.splits list.splits)





lemma waitOutcome_done:
  assumes "closed (fst (Action_WatchProgress e act))"
      and "100 \<in> set (sent (fst (Action_WatchProgress e act)))"
  shows "waitOutcome e act = Inr None"
  using assms
  by (cases "Action_WatchProgress e act")
     (auto simp add: waitOutcome_def waitForAction_def rangeProgress_iff prog_defs)

lemma waitOutcome_failed:
  assumes "closed (fst (Action_WatchProgress e act))"
      and "100 \<notin> set (sent (fst (Action_WatchProgress e act)))"
      and "sent (snd (Action_WatchProgress e act)) = Some err # others"
  shows "waitOutcome e act = Inr (Some err)"
  using assms
  by (cases "Action_WatchProgress e act")
     (auto simp add: waitOutcome_def waitForAction_def receive_def rangeProgress_iff prog_defs)

lemma waitOutcome_open:
  assumes "\<not> closed (fst (Action_WatchProgress e act))"
  shows "waitOutcome e act = Inl Blocked"
  using assms
  by (cases "Action_WatchProgress e act")
     (auto simp add: waitOutcome_def waitForAction_def prog_defs)


text \<open>
  A request the provider refuses, an action it reports as failed and an action that ends
  with an error before it reaches 100 each end the run with status 1 where they occur; an
  action whose progress never ends keeps the run waiting.
\<close>

lemma rescue_enable_failures:
  assumes "\<not> RescueEnabled srv"
  shows "(Server_EnableRescue e srv [key] = Inl err
          \<or> Server_EnableRescue e srv [key] = Inr enabled \<and> ActionError enabled = Some err \<longrightarrow>
            fst (enterRescue e srv key w) = Inl (Exit 1)
            \<and> calls (trace (snd (enterRescue e srv key w))) =
                calls (trace w) @ [EvEnableRescue (ID srv) ServerRescueTypeLinux64 [key]])
       \<and> (Server_EnableRescue e srv [key] = Inr enabled \<and> ActionError enabled = None
          \<and> closed (fst (Action_WatchProgress e enabled))
          \<and> 100 \<notin> set (sent (fst (Action_WatchProgress e enabled)))
          \<and> sent (snd (Action_WatchProgress e enabled)) = Some err # others \<longrightarrow>
            fst (enterRescue e srv key w) = Inl (Exit 1)
            \<and> calls (trace (snd (enterRescue e srv key w))) =
                calls (trace w) @ [EvEnableRescue (ID srv) ServerRescueTypeLinux64 [key],
                                   EvWatchProgress enabled])
       \<and> (Server_EnableRescue e srv [key] = Inr enabled \<and> ActionError enabled = None
          \<and> \<not> closed (fst (Action_WatchProgress e enabled)) \<longrightarrow>
            fst (enterRescue e srv key w) = Inl Blocked
            \<and> calls (trace (snd (enterRescue e srv key w))) =
                calls (trace w) @ [EvEnableRescue (ID srv) ServerRescueTypeLinux64 [key],
                                   EvWatchProgress enabled])"
  using assms
  by (auto simp add: enterRescue_def enableRescue_def prog_defs
      waitForAction_split waitOutcome_failed waitOutcome_open calls_snoc)

lemma rescue_power_failures:
  assumes "\<not> RescueEnabled srv \<longrightarrow>
             Server_EnableRescue e srv [key] = Inr enabled \<and> ActionError enabled = None
             \<and> closed (fst (Action_WatchProgress e enabled))
             \<and> 100 \<in> set (sent (fst (Action_WatchProgress e enabled)))"
  shows "((if Status srv = ServerStatusRunning then Server_Reboot e srv
           else Server_Poweron e srv) = Inl err
          \<or> (if Status srv = ServerStatusRunning then Server_Reboot e srv
              else Server_Poweron e srv) = Inr started \<and> ActionError started = Some err \<longrightarrow>
            fst (enterRescue e srv key w) = Inl (Exit 1)
            \<and> calls (trace (snd (enterRescue e srv key w))) =
                calls (trace w)
                @ (if RescueEnabled srv then []
                   else [EvEnableRescue (ID srv) ServerRescueTypeLinux64 [key],
                         EvWatchProgress enabled])
                @ [if Status srv = ServerStatusRunning then EvReboot (ID srv)
                   else EvPoweron (ID srv)])
       \<and> ((if Status srv = ServerStatusRunning then Server_Reboot e srv
            else Server_Poweron e srv) = Inr started \<and> ActionError started = None
          \<and> closed (fst (Action_WatchProgress e started))
          \<and> 100 \<notin> set (sent (fst (Action_WatchProgress e started)))
          \<and> sent (snd (Action_WatchProgress e started)) = Some err # others \<longrightarrow>
            fst (enterRescue e srv key w) = Inl (Exit 1)
            \<and> calls (trace (snd (enterRescue e srv key w))) =
                calls (trace w)
                @ (if RescueEnabled srv then []
                   else [EvEnableRescue (ID srv) ServerRescueTypeLinux64 [key],
                         EvWatchProgress enabled])
                @ [if Status srv = ServerStatusRunning then EvReboot (ID srv)
                   else EvPoweron (ID srv),
                   EvWatchProgress started])
       \<and> ((if Status srv = ServerStatusRunning then Server_Reboot e srv
            else Server_Poweron e srv) = Inr started \<and> ActionError started = None
          \<and> \<not> closed (fst (Action_WatchProgress e started)) \<longrightarrow>
            fst (enterRescue e srv key w) = Inl Blocked
            \<and> calls (trace (snd (enterRescue e srv key w))) =
                calls (trace w)
                @ (if RescueEnabled srv then []
                   else [EvEnableRescue (ID srv) ServerRescueTypeLinux64 [key],
                         EvWatchProgress enabled])
                @ [if Status srv = ServerStatusRunning then EvReboot (ID srv)
                   else EvPoweron (ID srv),
                   EvWatchProgress started])"
  using assms
  by (auto simp add: enterRescue_def enableRescue_def rebootOrPoweron_def prog_defs
      waitForAction_split waitOutcome_done waitOutcome_failed waitOutcome_open calls_snoc)



end
